theory Spec2Isabelle
  imports Main "HOL-Library.Word"
begin

section \<open>The Verilator test-bench driver (csrc/verilator-main.cpp)\<close>

text \<open>
  The driver owns a simulated-time counter, the two input ports \<open>reset\<close> and \<open>clock\<close>
  of the generated model, and the model instance itself. The generated model
  (\<open>VTestDriver\<close>) and the Verilator run-time (\<open>verilated.h\<close>) are not part of the
  repository: the model is a parameter of the embedding, and so is the result of every
  plusarg macro. Everything the driver does to the outside world (printing, seeding,
  evaluating the model, dumping a trace sample, tearing down) is recorded, in program
  order, in a log of events.
\<close>

subsection \<open>Data\<close>

type_synonym u8 = "8 word"
type_synonym u32 = "32 word"
type_synonym u64 = "64 word"

text \<open>The lines the driver prints; the rendering of numbers as text is left out.\<close>

datatype message =
    Info_random_seed u32          \<comment> \<open>line 49: "INFO(file): Random seed is n"\<close>
  | Error_random_seed             \<comment> \<open>line 51: "ERROR(file): +random_seed=<int> must be specified"\<close>
  | Info_dump_vcd string          \<comment> \<open>line 65: "INFO(file): dump vcd to f"\<close>
  | Deasserting_reset u64         \<comment> \<open>line 76: "time: t Deasserting 'reset'"\<close>
  | Simulation_heartbeat u64      \<comment> \<open>line 84: "INFO(file)@t: simulation-heartbeat"\<close>

datatype event =
    Stdout message
  | Srand48 u32                   \<comment> \<open>line 48\<close>
  | New_top                       \<comment> \<open>line 55: \<open>new VTestDriver("top")\<close>\<close>
  | Trace_ever_on                 \<comment> \<open>line 61\<close>
  | Trace_attach nat              \<comment> \<open>lines 62-63: \<open>top->trace (tfp.get(), 99)\<close>\<close>
  | Trace_open string             \<comment> \<open>line 64\<close>
  | Eval u64 u8 u8                \<comment> \<open>line 90: \<open>top->eval()\<close>, with \<open>main_time\<close>, \<open>reset\<close>, \<open>clock\<close> as they are then\<close>
  | Fflush                        \<comment> \<open>lines 91, 101\<close>
  | Dump u64                      \<comment> \<open>line 95: \<open>tfp->dump(main_time)\<close>\<close>
  | Final                         \<comment> \<open>line 100\<close>
  | Trace_close                   \<comment> \<open>line 105\<close>
  | Cov_write string              \<comment> \<open>line 110\<close>
  | Delete_top                    \<comment> \<open>line 113\<close>
  | Stderr_cpu_time "string option" "string option"
                                  \<comment> \<open>line 140: "CPU Time: x seconds;", with the \<open>utime\<close> and \<open>stime\<close> it is computed from\<close>

text \<open>
  The generated model, as the driver sees it: its state right after construction, what
  \<open>eval\<close> does to that state given the simulated time (\<open>sc_time_stamp\<close>) and the two
  input ports, and whether \<open>$finish\<close> has been executed
  (\<open>Verilated::gotFinish\<close>). The input ports are written by the driver only.
\<close>

record 'm model =
  construct :: 'm
  eval :: "u64 \<Rightarrow> u8 \<Rightarrow> u8 \<Rightarrow> 'm \<Rightarrow> 'm"
  gotFinish :: "'m \<Rightarrow> bool"

text \<open>
  The run-time environment: the results of the plusarg macros on the command line
  (\<open>None\<close> where the macro returns false), the two compile-time switches, and the
  content of \<open>/proc/<pid>/stat\<close> as the input stream delivers it at the end (nothing
  when the file cannot be opened).
\<close>

record env =
  valueplusargs_ini :: "string \<Rightarrow> u32 option"    \<comment> \<open>\<open>VL_VALUEPLUSARGS_INI(32, format, _)\<close>\<close>
  valueplusargs_inn :: "string \<Rightarrow> string option" \<comment> \<open>\<open>VL_VALUEPLUSARGS_INN(-1, format, _)\<close>\<close>
  testplusargs_i :: "string \<Rightarrow> int"              \<comment> \<open>\<open>VL_TESTPLUSARGS_I(name)\<close>\<close>
  vm_trace :: bool                                    \<comment> \<open>\<open>VM_TRACE == 1\<close>\<close>
  vm_coverage :: bool                                 \<comment> \<open>\<open>VM_COVERAGE\<close>\<close>
  proc_stat :: string

text \<open>The driver's state inside \<open>main\<close>.\<close>

record 'm sim =
  main_time :: u64
  reset :: u8
  clock :: u8
  core :: 'm
  tfp :: bool          \<comment> \<open>whether there is a non-null trace handle (there is none unless \<open>VM_TRACE == 1\<close>)\<close>
  log :: "event list"  \<comment> \<open>oldest event first\<close>

record result =
  out :: "event list"
  exit_code :: int

subsection \<open>The drive loop (lines 74-98)\<close>

definition reset_release :: u64 where
  "reset_release = push_bit 1 770"

text \<open>Lines 75-78.\<close>

definition deassert_reset :: "'m sim \<Rightarrow> 'm sim" where
  "deassert_reset s =
     (if reset s = 1 \<and> main_time s \<ge> reset_release
      then s\<lparr>log := log s @ [Stdout (Deasserting_reset (main_time s))], reset := 0\<rparr>
      else s)"

text \<open>Lines 81-88.\<close>

definition drive_clock :: "int \<Rightarrow> 'm sim \<Rightarrow> 'm sim" where
  "drive_clock heartbeat s =
     (if main_time s mod 2 = 0
      then (let s1 = s\<lparr>clock := 1\<rparr>
            in if heartbeat \<noteq> 0 \<and> main_time s mod 1000 = 0
               then s1\<lparr>log := log s1 @ [Stdout (Simulation_heartbeat (main_time s1))]\<rparr>
               else s1)
      else s\<lparr>clock := 0\<rparr>)"

text \<open>Lines 90-91.\<close>

definition eval_model :: "'m model \<Rightarrow> 'm sim \<Rightarrow> 'm sim" where
  "eval_model M s =
     s\<lparr>core := eval M (main_time s) (reset s) (clock s) (core s),
       log := log s @ [Eval (main_time s) (reset s) (clock s), Fflush]\<rparr>"

text \<open>Line 92.\<close>

definition advance_time :: "'m sim \<Rightarrow> 'm sim" where
  "advance_time s = s\<lparr>main_time := main_time s + 1\<rparr>"

text \<open>Lines 93-97.\<close>

definition dump_trace :: "'m sim \<Rightarrow> 'm sim" where
  "dump_trace s = (if tfp s then s\<lparr>log := log s @ [Dump (main_time s)]\<rparr> else s)"

definition loop_body :: "'m model \<Rightarrow> int \<Rightarrow> 'm sim \<Rightarrow> 'm sim" where
  "loop_body M heartbeat s =
     dump_trace (advance_time (eval_model M (drive_clock heartbeat (deassert_reset s))))"

text \<open>
  The loop may run forever (a model that never executes \<open>$finish\<close>): not returning is
  the value \<open>None\<close>.
\<close>

partial_function (option) drive_loop :: "'m model \<Rightarrow> int \<Rightarrow> 'm sim \<Rightarrow> 'm sim option" where
  "drive_loop M heartbeat s =
     (if \<not> gotFinish M (core s) then drive_loop M heartbeat (loop_body M heartbeat s)
      else Some s)"

declare drive_loop.simps [code]

subsection \<open>Start-up and teardown\<close>

text \<open>Lines 57-67: the tracer is attached when tracing is compiled in and \<open>+vcdfile=\<close> is given.\<close>

definition trace_setup :: "env \<Rightarrow> string option" where
  "trace_setup E = (if vm_trace E then valueplusargs_inn E ''vcdfile=%s'' else None)"

definition trace_setup_events :: "string option \<Rightarrow> event list" where
  "trace_setup_events t =
     (case t of
        None \<Rightarrow> []
      | Some vcdfile \<Rightarrow>
          [Trace_ever_on, Trace_attach 99, Trace_open vcdfile, Stdout (Info_dump_vcd vcdfile)])"

text \<open>Lines 55-72: the state in which the loop is entered.\<close>

definition init_sim :: "'m model \<Rightarrow> env \<Rightarrow> u32 \<Rightarrow> 'm sim" where
  "init_sim M E randomSeed =
     \<lparr>main_time = 0, reset = 1, clock = 1, core = construct M,
      tfp = (trace_setup E \<noteq> None),
      log = [Srand48 randomSeed, Stdout (Info_random_seed randomSeed), New_top]
            @ trace_setup_events (trace_setup E)\<rparr>"

text \<open>
  Lines 116-138 read the stat file with the stream's \<open>>>\<close>: every extraction skips
  white space and takes the characters up to the next white space, so the \<open>i\<close>-th
  extraction yields the \<open>i\<close>-th white-space separated token of the file. The first
  argument of \<open>stream_tokens\<close> is the token being read.
\<close>

definition isspace :: "char \<Rightarrow> bool" where
  "isspace c =
     (c = CHR '' '' \<or> c = CHR 0x09 \<or> c = CHR 0x0A \<or> c = CHR 0x0B \<or> c = CHR 0x0C
      \<or> c = CHR 0x0D)"

fun stream_tokens :: "string \<Rightarrow> string \<Rightarrow> string list" where
  "stream_tokens tok [] = (if tok = [] then [] else [tok])"
| "stream_tokens tok (c # cs) =
     (if isspace c then (if tok = [] then stream_tokens [] cs else tok # stream_tokens [] cs)
      else stream_tokens (tok @ [c]) cs)"

text \<open>
  Thirteen tokens are thrown away, the next two go to \<open>utime\<close> and \<open>stime\<close>. An
  extraction after the end of the file (or from a file that could not be opened) assigns
  nothing, and the variable keeps its indeterminate value: \<open>None\<close>.
\<close>

definition stat_token :: "string list \<Rightarrow> nat \<Rightarrow> string option" where
  "stat_token toks i = (if i < length toks then Some (toks ! i) else None)"

text \<open>Lines 100-142.\<close>

definition teardown :: "'m model \<Rightarrow> env \<Rightarrow> 'm sim \<Rightarrow> result" where
  "teardown M E s =
     \<lparr>out = log s @ [Final, Fflush]
            @ (if tfp s then [Trace_close] else [])
            @ (if vm_coverage E then [Cov_write ''coverage.dat''] else [])
            @ [Delete_top,
               Stderr_cpu_time (stat_token (stream_tokens [] (proc_stat E)) 13)
                 (stat_token (stream_tokens [] (proc_stat E)) 14)],
      exit_code = 0\<rparr>"

text \<open>Lines 40-143. \<open>None\<close>: the loop never exits, so neither does the program.\<close>

definition main :: "'m model \<Rightarrow> env \<Rightarrow> result option" where
  "main M E =
     (case valueplusargs_ini E ''random_seed=%d'' of
        Some randomSeed \<Rightarrow>
          (case drive_loop M (testplusargs_i E ''heartbeat'') (init_sim M E randomSeed) of
             None \<Rightarrow> None
           | Some s \<Rightarrow> Some (teardown M E s))
      | None \<Rightarrow> Some \<lparr>out = [Stdout Error_random_seed], exit_code = 44\<rparr>)"

subsection \<open>The debug hook \<open>plusarg_value\<close> (lines 25-37)\<close>

definition NUL :: char where
  "NUL = CHR 0x00"

text \<open>\<open>std::string::c_str\<close>: the characters of the string, then the terminator.\<close>

definition c_str :: "string \<Rightarrow> char list" where
  "c_str s = s @ [NUL]"

text \<open>The C string stored at the start of an array of bytes.\<close>

definition c_string_at :: "char list \<Rightarrow> string" where
  "c_string_at bytes = takeWhile (\<lambda>c. c \<noteq> NUL) bytes"

datatype fault = Write_past_end

text \<open>
  \<open>strcpy\<close> copies the bytes of the source up to and including its first terminator to
  the start of the destination array, and checks nothing: writing past the end of the
  array is the fault.
\<close>

definition strcpy :: "char list \<Rightarrow> char list \<Rightarrow> fault + char list" where
  "strcpy dest src =
     (let bytes = c_string_at src @ [NUL]
      in if length bytes \<le> length dest then Inr (bytes @ drop (length bytes) dest)
         else Inl Write_past_end)"

text \<open>The address of the function's one static array \<open>buffer\<close>.\<close>

datatype pointer = Static_buffer

definition buffer_size :: nat where
  "buffer_size = 1024"

text \<open>
  The static array is state that outlives the call: the function takes its contents and
  returns the pointer together with the new contents. A plusarg that does not match
  leaves \<open>plusargvalue\<close> empty.
\<close>

definition plusarg_value :: "env \<Rightarrow> char list \<Rightarrow> string \<Rightarrow> fault + (pointer \<times> char list)" where
  "plusarg_value E buffer plusarg =
     (let format = plusarg @ ''%s'';
          plusargvalue = (case valueplusargs_inn E format of Some v \<Rightarrow> v | None \<Rightarrow> [])
      in case strcpy buffer (c_str plusargvalue) of
           Inl e \<Rightarrow> Inl e
         | Inr buffer' \<Rightarrow> Inr (Static_buffer, buffer'))"

subsection \<open>Reading the log\<close>

fun evals :: "event list \<Rightarrow> (u64 \<times> u8 \<times> u8) list" where
  "evals [] = []"
| "evals (Eval t r c # es) = (t, r, c) # evals es"
| "evals (e # es) = evals es"

fun heartbeats :: "event list \<Rightarrow> u64 list" where
  "heartbeats [] = []"
| "heartbeats (Stdout (Simulation_heartbeat t) # es) = t # heartbeats es"
| "heartbeats (e # es) = heartbeats es"

subsection \<open>Concrete models and environments\<close>

text \<open>A model that executes \<open>$finish\<close> in its \<open>k\<close>-th evaluation, and one that never does.\<close>

definition finish_at :: "nat \<Rightarrow> nat model" where
  "finish_at k = \<lparr>construct = 0, eval = (\<lambda>t r c m. Suc m), gotFinish = (\<lambda>m. k \<le> m)\<rparr>"

definition never_finish :: "unit model" where
  "never_finish = \<lparr>construct = (), eval = (\<lambda>t r c m. m), gotFinish = (\<lambda>m. False)\<rparr>"

text \<open>
  A command line \<open>+random_seed=7 +heartbeat +vcdfile=dump.vcd\<close> with tracing compiled in,
  one with the seed only, and one without the seed.
\<close>

definition env_full :: env where
  "env_full =
     \<lparr>valueplusargs_ini = (\<lambda>f. if f = ''random_seed=%d'' then Some 7 else None),
      valueplusargs_inn = (\<lambda>f. if f = ''vcdfile=%s'' then Some ''dump.vcd'' else None),
      testplusargs_i = (\<lambda>n. if n = ''heartbeat'' then 1 else 0),
      vm_trace = True, vm_coverage = True,
      proc_stat = ''1 (sim) R 0 0 0 0 0 0 0 0 0 0 12 3 0 0''\<rparr>"

definition env_seed :: env where
  "env_seed =
     \<lparr>valueplusargs_ini = (\<lambda>f. if f = ''random_seed=%d'' then Some 7 else None),
      valueplusargs_inn = (\<lambda>f. None),
      testplusargs_i = (\<lambda>n. 0),
      vm_trace = False, vm_coverage = False,
      proc_stat = []\<rparr>"

definition env_no_seed :: env where
  "env_no_seed = env_seed\<lparr>valueplusargs_ini := (\<lambda>f. None)\<rparr>"

text \<open>
  The stat file of a process whose executable is called \<open>my sim\<close>. The kernel writes
  the fields separated by single spaces, the name (field 2) in parentheses; here
  \<open>majflt = 5\<close>, \<open>cmajflt = 7\<close>, \<open>utime = 12\<close> (field 14) and \<open>stime = 3\<close> (field 15).
\<close>

definition stat_fields_my_sim :: "string list" where
  "stat_fields_my_sim =
     [''4242'', ''(my sim)'', ''R'', ''1'', ''4242'', ''4242'', ''0'', ''-1'', ''4194304'',
      ''100'', ''0'', ''5'', ''7'', ''12'', ''3'', ''0'', ''0'']"

fun stat_line :: "string list \<Rightarrow> string" where
  "stat_line [] = []"
| "stat_line [f] = f"
| "stat_line (f # fs) = f @ '' '' @ stat_line fs"

definition env_my_sim :: env where
  "env_my_sim = env_seed\<lparr>proc_stat := stat_line stat_fields_my_sim\<rparr>"

text \<open>A command line on which the plusarg \<open>+x=\<close> has a value of 1024 characters.\<close>

definition env_long :: env where
  "env_long =
     env_seed\<lparr>valueplusargs_inn :=
       (\<lambda>f. if f = ''x=%s'' then Some (replicate 1024 CHR ''a'') else None)\<rparr>"

section \<open>Properties\<close>

subsection \<open>Arithmetic of the 64-bit time counter\<close>

lemma reset_release_eq: "reset_release = 1540"
  by (simp add: reset_release_def)

lemma mod_1000_mod_2: "(w :: u64) mod 1000 = 0 \<Longrightarrow> w mod 2 = 0"
proof -
  assume "w mod 1000 = 0"
  then have "unat (w mod 1000) = 0" by simp
  then have "unat w mod 1000 = 0" by (simp add: unat_mod)
  moreover have "(unat w mod 1000) mod 2 = unat w mod 2"
    by (rule mod_mod_cancel) simp
  ultimately have "unat w mod 2 = 0" by simp
  then have "unat (w mod 2) = 0" by (simp add: unat_mod)
  then show ?thesis by (simp add: unat_eq_0)
qed

lemma of_nat_mod_2: "((of_nat i :: u64) mod 2 = 0) = even i"
proof -
  have "((of_nat i :: u64) mod 2 = 0) = (unat ((of_nat i :: u64) mod 2) = 0)"
    by (simp add: unat_eq_0)
  also have "\<dots> = ((i mod 2 ^ 64) mod 2 = 0)"
    by (simp add: unat_mod unat_of_nat)
  also have "(i mod 2 ^ 64) mod 2 = i mod 2"
    by (rule mod_mod_cancel) simp
  finally show ?thesis by (simp add: even_iff_mod_2_eq_zero)
qed

lemma of_nat_ge_release: "i < 2 ^ 64 \<Longrightarrow> (reset_release \<le> (of_nat i :: u64)) = (1540 \<le> i)"
  by (simp add: reset_release_eq word_le_nat_alt unat_of_nat)

lemma wrap_u64: "(of_nat (2 ^ 64) :: u64) = 0"
  by (simp only: of_nat_power of_nat_numeral) simp

subsection \<open>One iteration\<close>

lemma evals_append: "evals (xs @ ys) = evals xs @ evals ys"
  by (induction xs rule: evals.induct) simp_all

lemma heartbeats_append: "heartbeats (xs @ ys) = heartbeats xs @ heartbeats ys"
  by (induction xs rule: heartbeats.induct) simp_all

lemmas loop_body_defs =
  loop_body_def dump_trace_def advance_time_def eval_model_def drive_clock_def
  deassert_reset_def Let_def

lemma main_time_loop_body: "main_time (loop_body M hb s) = main_time s + 1"
  by (simp add: loop_body_defs)

lemma tfp_loop_body: "tfp (loop_body M hb s) = tfp s"
  by (simp add: loop_body_defs)

lemma clock_loop_body: "clock (loop_body M hb s) = (if main_time s mod 2 = 0 then 1 else 0)"
  by (simp add: loop_body_defs)

lemma reset_loop_body:
  "reset (loop_body M hb s) = (if reset s = 1 \<and> reset_release \<le> main_time s then 0 else reset s)"
  by (simp add: loop_body_defs)

lemma log_loop_body:
  "log (loop_body M hb s) =
     log s
     @ (if reset s = 1 \<and> reset_release \<le> main_time s
        then [Stdout (Deasserting_reset (main_time s))] else [])
     @ (if hb \<noteq> 0 \<and> main_time s mod 1000 = 0
        then [Stdout (Simulation_heartbeat (main_time s))] else [])
     @ [Eval (main_time s)
             (if reset s = 1 \<and> reset_release \<le> main_time s then 0 else reset s)
             (if main_time s mod 2 = 0 then 1 else 0),
        Fflush]
     @ (if tfp s then [Dump (main_time s + 1)] else [])"
  using mod_1000_mod_2 [of "main_time s"]
  by (simp add: loop_body_defs)

subsection \<open>The state after \<open>n\<close> iterations\<close>

lemma main_time_iter: "main_time ((loop_body M hb ^^ n) s) = main_time s + of_nat n"
  by (induction n) (simp_all add: main_time_loop_body)

lemma tfp_iter: "tfp ((loop_body M hb ^^ n) s) = tfp s"
  by (induction n) (simp_all add: tfp_loop_body)

lemma reset_iter:
  "main_time s = 0 \<Longrightarrow> reset s = 1 \<Longrightarrow>
   reset ((loop_body M hb ^^ n) s) = (if n \<le> 1540 then 1 else 0)"
proof (induction n)
  case 0
  then show ?case by simp
next
  case (Suc n)
  show ?case
  proof (cases "n \<le> 1540")
    case True
    then have "n < 2 ^ 64" by simp
    then have "(reset_release \<le> (of_nat n :: u64)) = (1540 \<le> n)"
      by (rule of_nat_ge_release)
    with True Suc show ?thesis
      by (simp add: reset_loop_body main_time_iter)
  next
    case False
    with Suc show ?thesis
      by (simp add: reset_loop_body main_time_iter)
  qed
qed

lemma evals_loop_body_iter:
  assumes "main_time s = 0" "reset s = 1"
  shows "evals (log (loop_body M hb ((loop_body M hb ^^ n) s))) =
         evals (log ((loop_body M hb ^^ n) s))
         @ [(of_nat n, if n < 1540 then 1 else 0, if even n then 1 else 0)]"
proof (cases "n \<le> 1540")
  case True
  then have "n < 2 ^ 64" by simp
  then have "(reset_release \<le> (of_nat n :: u64)) = (1540 \<le> n)"
    by (rule of_nat_ge_release)
  with True assms show ?thesis
    by (auto simp add: log_loop_body evals_append main_time_iter reset_iter of_nat_mod_2)
next
  case False
  with assms show ?thesis
    by (simp add: log_loop_body evals_append main_time_iter reset_iter of_nat_mod_2)
qed

lemma evals_iter:
  assumes "main_time s = 0" "reset s = 1"
  shows "evals (log ((loop_body M hb ^^ n) s)) =
         evals (log s)
         @ map (\<lambda>i. (of_nat i, if i < 1540 then 1 else 0, if even i then 1 else 0)) [0..<n]"
proof (induction n)
  case 0
  show ?case by simp
next
  case (Suc n)
  then show ?case
    using evals_loop_body_iter [OF assms, of M hb n] by simp
qed

lemma heartbeats_iter:
  "heartbeats (log ((loop_body M hb ^^ n) s)) =
     heartbeats (log s)
     @ (if hb \<noteq> 0
        then filter (\<lambda>t. t mod 1000 = 0) (map (\<lambda>i. main_time s + of_nat i) [0..<n])
        else [])"
  by (induction n) (simp_all add: log_loop_body heartbeats_append main_time_iter)

lemma init_sim_simps:
  "main_time (init_sim M E seed) = 0"
  "reset (init_sim M E seed) = 1"
  "clock (init_sim M E seed) = 1"
  "core (init_sim M E seed) = construct M"
  by (simp_all add: init_sim_def)

lemma tfp_init_sim:
  "tfp (init_sim M E seed) = (vm_trace E \<and> valueplusargs_inn E ''vcdfile=%s'' \<noteq> None)"
  by (simp add: init_sim_def trace_setup_def)

lemma tfp_env_full: "tfp (init_sim M env_full seed)"
  by (simp add: tfp_init_sim env_full_def)

lemma evals_init_sim: "evals (log (init_sim M E seed)) = []"
  by (simp add: init_sim_def trace_setup_events_def split: option.split)

lemma heartbeats_init_sim: "heartbeats (log (init_sim M E seed)) = []"
  by (simp add: init_sim_def trace_setup_events_def split: option.split)

subsection \<open>The loop and the iterates of its body\<close>

lemma drive_loop_finishes:
  "gotFinish M (core ((loop_body M hb ^^ k) s)) \<Longrightarrow>
   (\<And>j. j < k \<Longrightarrow> \<not> gotFinish M (core ((loop_body M hb ^^ j) s))) \<Longrightarrow>
   drive_loop M hb s = Some ((loop_body M hb ^^ k) s)"
proof (induction k arbitrary: s)
  case 0
  then show ?case by (subst drive_loop.simps) simp
next
  case (Suc k)
  have n0: "\<not> gotFinish M (core s)" using Suc.prems(2) [of 0] by simp
  have "drive_loop M hb (loop_body M hb s) = Some ((loop_body M hb ^^ k) (loop_body M hb s))"
  proof (rule Suc.IH)
    show "gotFinish M (core ((loop_body M hb ^^ k) (loop_body M hb s)))"
      using Suc.prems(1) by (simp add: funpow_swap1)
    fix j assume "j < k"
    then show "\<not> gotFinish M (core ((loop_body M hb ^^ j) (loop_body M hb s)))"
      using Suc.prems(2) [of "Suc j"] by (simp add: funpow_swap1)
  qed
  then show ?case using n0 by (subst drive_loop.simps) (simp add: funpow_swap1)
qed

lemma drive_loop_SomeD:
  assumes run: "drive_loop M hb s = Some t"
  shows "\<exists>k. t = (loop_body M hb ^^ k) s \<and> gotFinish M (core t) \<and>
       (\<forall>j<k. \<not> gotFinish M (core ((loop_body M hb ^^ j) s)))"
proof (rule drive_loop.raw_induct
    [where P = "\<lambda>M hb s t. \<exists>k. t = (loop_body M hb ^^ k) s \<and> gotFinish M (core t) \<and>
       (\<forall>j<k. \<not> gotFinish M (core ((loop_body M hb ^^ j) s)))", OF _ run])
  fix f :: "'a model \<Rightarrow> int \<Rightarrow> 'a sim \<Rightarrow> 'a sim option" and M hb s t
  assume IH: "\<And>M hb s t. f M hb s = Some t \<Longrightarrow>
      \<exists>k. t = (loop_body M hb ^^ k) s \<and> gotFinish M (core t) \<and>
       (\<forall>j<k. \<not> gotFinish M (core ((loop_body M hb ^^ j) s)))"
    and eq: "(if \<not> gotFinish M (core s) then f M hb (loop_body M hb s) else Some s) = Some t"
  show "\<exists>k. t = (loop_body M hb ^^ k) s \<and> gotFinish M (core t) \<and>
       (\<forall>j<k. \<not> gotFinish M (core ((loop_body M hb ^^ j) s)))"
  proof (cases "gotFinish M (core s)")
    case True
    with eq have "t = s" by simp
    with True have "t = (loop_body M hb ^^ 0) s \<and> gotFinish M (core t) \<and>
       (\<forall>j<0. \<not> gotFinish M (core ((loop_body M hb ^^ j) s)))" by simp
    then show ?thesis by blast
  next
    case False
    with eq have "f M hb (loop_body M hb s) = Some t" by simp
    from IH [OF this] obtain k where
      k: "t = (loop_body M hb ^^ k) (loop_body M hb s)" "gotFinish M (core t)"
         "\<forall>j<k. \<not> gotFinish M (core ((loop_body M hb ^^ j) (loop_body M hb s)))"
      by blast
    have "\<forall>j<Suc k. \<not> gotFinish M (core ((loop_body M hb ^^ j) s))"
    proof (intro allI impI)
      fix j assume "j < Suc k"
      show "\<not> gotFinish M (core ((loop_body M hb ^^ j) s))"
      proof (cases j)
        case 0
        with False show ?thesis by simp
      next
        case (Suc i)
        with \<open>j < Suc k\<close> k(3) show ?thesis by (simp add: funpow_swap1)
      qed
    qed
    with k(1,2) have "t = (loop_body M hb ^^ Suc k) s \<and> gotFinish M (core t) \<and>
       (\<forall>j<Suc k. \<not> gotFinish M (core ((loop_body M hb ^^ j) s)))"
      by (simp add: funpow_swap1)
    then show ?thesis by blast
  qed
qed

lemma drive_loop_terminates:
  assumes "gotFinish M (core ((loop_body M hb ^^ k) s))"
  shows "\<exists>t. drive_loop M hb s = Some t"
proof -
  define P where "P = (\<lambda>k. gotFinish M (core ((loop_body M hb ^^ k) s)))"
  have "P k" using assms by (simp add: P_def)
  then have "P (LEAST k. P k)" by (rule LeastI)
  moreover have "\<And>j. j < (LEAST k. P k) \<Longrightarrow> \<not> P j" by (rule not_less_Least)
  ultimately have "drive_loop M hb s = Some ((loop_body M hb ^^ (LEAST k. P k)) s)"
    unfolding P_def by (rule drive_loop_finishes)
  then show ?thesis by blast
qed

lemma drive_loop_None_iff:
  "(drive_loop M hb s = None) = (\<forall>k. \<not> gotFinish M (core ((loop_body M hb ^^ k) s)))"
proof
  assume n: "drive_loop M hb s = None"
  show "\<forall>k. \<not> gotFinish M (core ((loop_body M hb ^^ k) s))"
  proof (intro allI notI)
    fix k assume "gotFinish M (core ((loop_body M hb ^^ k) s))"
    then have "\<exists>t. drive_loop M hb s = Some t" by (rule drive_loop_terminates)
    with n show False by simp
  qed
next
  assume a: "\<forall>k. \<not> gotFinish M (core ((loop_body M hb ^^ k) s))"
  show "drive_loop M hb s = None"
  proof (cases "drive_loop M hb s")
    case None
    then show ?thesis .
  next
    case (Some t)
    then obtain k where "t = (loop_body M hb ^^ k) s" "gotFinish M (core t)"
      using drive_loop_SomeD by blast
    with a show ?thesis by simp
  qed
qed

subsection \<open>The log only grows\<close>

lemma log_iter_prefix: "\<exists>es. log ((loop_body M hb ^^ n) s) = log s @ es"
proof (induction n)
  case 0
  show ?case by simp
next
  case (Suc n)
  then obtain es where es: "log ((loop_body M hb ^^ n) s) = log s @ es" by blast
  have "\<exists>fs. log (loop_body M hb ((loop_body M hb ^^ n) s)) = log ((loop_body M hb ^^ n) s) @ fs"
    by (subst log_loop_body) blast
  then obtain fs where
    "log (loop_body M hb ((loop_body M hb ^^ n) s)) = log ((loop_body M hb ^^ n) s) @ fs"
    by blast
  with es have "log ((loop_body M hb ^^ Suc n) s) = log s @ (es @ fs)" by simp
  then show ?case by blast
qed

subsection \<open>The concrete models\<close>

lemma core_loop_body:
  "core (loop_body M hb s) =
     eval M (main_time s) (reset (loop_body M hb s)) (if main_time s mod 2 = 0 then 1 else 0)
       (core s)"
  by (simp add: loop_body_defs)

lemma core_iter_finish_at: "core ((loop_body (finish_at k) hb ^^ n) s) = core s + n"
  by (induction n) (simp_all add: core_loop_body finish_at_def)

lemma construct_finish_at: "construct (finish_at k) = 0"
  by (simp add: finish_at_def)

lemma gotFinish_finish_at: "gotFinish (finish_at k) m = (k \<le> m)"
  by (simp add: finish_at_def)

lemma gotFinish_never_finish: "gotFinish never_finish m = False"
  by (simp add: never_finish_def)

lemma drive_loop_never_finish: "drive_loop never_finish hb s = None"
  by (simp add: drive_loop_None_iff gotFinish_never_finish)

subsection \<open>Start-up\<close>

lemma main_with_seed:
  "valueplusargs_ini E ''random_seed=%d'' = Some seed \<Longrightarrow>
   main M E =
     map_option (teardown M E)
       (drive_loop M (testplusargs_i E ''heartbeat'') (init_sim M E seed))"
  by (simp add: main_def split: option.split)

lemma log_init_sim:
  "log (init_sim M E seed) =
     [Srand48 seed, Stdout (Info_random_seed seed), New_top] @ trace_setup_events (trace_setup E)"
  by (simp add: init_sim_def)

lemma out_start:
  assumes "drive_loop M hb (init_sim M E seed) = Some t"
  shows "take 3 (out (teardown M E t)) = [Srand48 seed, Stdout (Info_random_seed seed), New_top]"
proof -
  from assms obtain k where "t = (loop_body M hb ^^ k) (init_sim M E seed)"
    using drive_loop_SomeD by blast
  then obtain es where "log t = log (init_sim M E seed) @ es"
    using log_iter_prefix by blast
  then show ?thesis
    by (simp add: teardown_def log_init_sim)
qed

lemma drive_loop_finish_at_0:
  "drive_loop (finish_at 0) hb (init_sim (finish_at 0) E seed) = Some (init_sim (finish_at 0) E seed)"
  by (subst drive_loop.simps) (simp add: gotFinish_finish_at)

subsection \<open>Copying into the static buffer\<close>

lemma c_string_at_terminated: "NUL \<notin> set v \<Longrightarrow> c_string_at (v @ NUL # rest) = v"
  by (auto simp add: c_string_at_def takeWhile_tail)

lemma strcpy_c_str:
  assumes "NUL \<notin> set v"
  shows "strcpy dest (c_str v) =
           (if length v + 1 \<le> length dest then Inr (v @ NUL # drop (length v + 1) dest)
            else Inl Write_past_end)"
  using assms by (simp add: strcpy_def c_str_def c_string_at_terminated Let_def)

lemma plusarg_value_found:
  assumes "valueplusargs_inn E (plusarg @ ''%s'') = Some v" "NUL \<notin> set v"
  shows "plusarg_value E buffer plusarg =
           (if length v + 1 \<le> length buffer
            then Inr (Static_buffer, v @ NUL # drop (length v + 1) buffer)
            else Inl Write_past_end)"
  using assms by (simp add: plusarg_value_def strcpy_c_str Let_def)

subsection \<open>A whole run\<close>

lemma heartbeats_teardown: "heartbeats (out (teardown M E t)) = heartbeats (log t)"
  by (simp add: teardown_def heartbeats_append)

lemma main_finish_at_0:
  "valueplusargs_ini E ''random_seed=%d'' = Some seed \<Longrightarrow>
   main (finish_at 0) E = Some (teardown (finish_at 0) E (init_sim (finish_at 0) E seed))"
  by (simp add: main_with_seed drive_loop_finish_at_0)

lemma evals_run:
  "evals (log ((loop_body M hb ^^ n) (init_sim M E seed))) =
     map (\<lambda>i. (of_nat i, if i < 1540 then 1 else 0, if even i then 1 else 0)) [0..<n]"
  by (simp add: evals_iter init_sim_simps evals_init_sim)

lemma of_nat_ge_1540: "(1540 :: u64) \<le> of_nat i \<Longrightarrow> 1540 \<le> i"
proof -
  assume "(1540 :: u64) \<le> of_nat i"
  then have "1540 \<le> unat (of_nat i :: u64)" by (simp add: word_le_nat_alt)
  then have "1540 \<le> i mod 2 ^ 64" by (simp add: unat_of_nat)
  moreover have "i mod 2 ^ 64 \<le> i" by (rule mod_less_eq_dividend)
  ultimately show ?thesis by (rule order_trans)
qed

lemma of_nat_less_1540: "i < 2 ^ 64 \<Longrightarrow> (of_nat i :: u64) < 1540 \<Longrightarrow> i < 1540"
  by (simp add: word_less_nat_alt unat_of_nat)


lemma evals_teardown: "evals (out (teardown M E t)) = evals (log t)"
  by (simp add: teardown_def evals_append)

lemma drive_loop_finish_at:
  "drive_loop (finish_at k) hb (init_sim (finish_at k) E seed) =
     Some ((loop_body (finish_at k) hb ^^ k) (init_sim (finish_at k) E seed))"
  by (rule drive_loop_finishes)
     (simp_all add: core_iter_finish_at gotFinish_finish_at init_sim_simps construct_finish_at)

lemma main_finish_at:
  "valueplusargs_ini E ''random_seed=%d'' = Some seed \<Longrightarrow>
   main (finish_at k) E =
     Some (teardown (finish_at k) E
       ((loop_body (finish_at k) (testplusargs_i E ''heartbeat'') ^^ k)
          (init_sim (finish_at k) E seed)))"
  by (simp add: main_with_seed drive_loop_finish_at)

lemma times_run:
  "map (\<lambda>(t, r, c). t) (evals (log ((loop_body M hb ^^ n) (init_sim M E seed)))) =
     map of_nat [0..<n]"
  by (simp add: evals_run)

lemma of_nat_mod_1000: "i < 2 ^ 64 \<Longrightarrow> ((of_nat i :: u64) mod 1000 = 0) = (i mod 1000 = 0)"
proof -
  assume i: "i < 2 ^ 64"
  have "((of_nat i :: u64) mod 1000 = 0) = (unat ((of_nat i :: u64) mod 1000) = 0)"
    by (simp add: unat_eq_0)
  also have "\<dots> = (i mod 1000 = 0)"
    using i by (simp add: unat_mod unat_of_nat)
  finally show ?thesis .
qed

lemma heartbeat_times_1001:
  "filter (\<lambda>t. t mod 1000 = 0) (map of_nat [0..<1001]) = [0, 1000 :: u64]"
proof -
  have split: "[0..<1001] = 0 # [1..<1000] @ [1000]"
  proof -
    have "[0..<1001] = 0 # [Suc 0..<1001]" by (rule upt_conv_Cons) simp
    moreover have "[Suc 0..<Suc 1000] = [Suc 0..<1000] @ [1000]"
      by (rule upt_Suc_append) simp
    moreover have "Suc 1000 = 1001" by simp
    ultimately show ?thesis by (simp only: One_nat_def)
  qed
  have none: "filter (\<lambda>t. t mod 1000 = 0) (map of_nat [1..<1000]) = ([] :: u64 list)"
  proof -
    have "\<And>i. i \<in> set [1..<1000] \<Longrightarrow> (of_nat i :: u64) mod 1000 \<noteq> 0"
    proof -
      fix i :: nat assume "i \<in> set [1..<1000]"
      then have i: "1 \<le> i" "i < 1000" by simp_all
      then have "i < 2 ^ 64" by simp
      then have "((of_nat i :: u64) mod 1000 = 0) = (i mod 1000 = 0)" by (rule of_nat_mod_1000)
      with i show "(of_nat i :: u64) mod 1000 \<noteq> 0" by simp
    qed
    then show ?thesis by (simp add: filter_empty_conv)
  qed
  show ?thesis
    by (simp only: split list.map map_append filter.simps filter_append none) simp
qed

subsection \<open>Teardown\<close>

text \<open>
  What \<open>main\<close> does after the loop has exited in state \<open>s\<close>, in order: \<open>final\<close> and a
  flush, closing the trace if one was opened, writing the coverage data if coverage is
  compiled in, destroying the model, and the CPU-time line on stderr with what tokens
  14 and 15 of the stat file gave.
\<close>


lemma teardown_events:
  assumes "valueplusargs_ini E ''random_seed=%d'' = Some seed"
      and "drive_loop M (testplusargs_i E ''heartbeat'') (init_sim M E seed) = Some s"
  shows "\<exists>r. main M E = Some r \<and>
           out r =
             log s @ [Final, Fflush]
             @ (if vm_trace E \<and> valueplusargs_inn E ''vcdfile=%s'' \<noteq> None then [Trace_close]
                else [])
             @ (if vm_coverage E then [Cov_write ''coverage.dat''] else [])
             @ [Delete_top,
                Stderr_cpu_time (stat_token (stream_tokens [] (proc_stat E)) 13)
                  (stat_token (stream_tokens [] (proc_stat E)) 14)]"
proof -
  from assms(2) obtain k where
    "s = (loop_body M (testplusargs_i E ''heartbeat'') ^^ k) (init_sim M E seed)"
    using drive_loop_SomeD by blast
  then have "tfp s = (vm_trace E \<and> valueplusargs_inn E ''vcdfile=%s'' \<noteq> None)"
    by (simp add: tfp_iter tfp_init_sim)
  with assms show ?thesis
    by (simp add: main_with_seed teardown_def)
qed

section \<open>The claims\<close>

text \<open>
  Claim C1. Without the mandatory \<open>+random_seed=\<close> plusarg the program prints its
  diagnostic and exits with status 44. That is the only checked failure: a run that
  returns has a non-zero exit code exactly when the seed is missing. With the seed
  present the program seeds the random generator with it, reports it, constructs the
  model and goes on into the drive loop; if it returns at all, it returns 0.
\<close>

theorem random_seed_is_the_only_checked_failure:
  "(valueplusargs_ini E ''random_seed=%d'' = None \<longrightarrow>
      main M E = Some \<lparr>out = [Stdout Error_random_seed], exit_code = 44\<rparr>)
   \<and> (\<forall>seed. valueplusargs_ini E ''random_seed=%d'' = Some seed \<longrightarrow>
        main M E =
          map_option (teardown M E)
            (drive_loop M (testplusargs_i E ''heartbeat'') (init_sim M E seed))
        \<and> (\<forall>r. main M E = Some r \<longrightarrow>
              exit_code r = 0
              \<and> take 3 (out r) = [Srand48 seed, Stdout (Info_random_seed seed), New_top]))
   \<and> (\<forall>r. main M E = Some r \<longrightarrow>
         (exit_code r \<noteq> 0) = (valueplusargs_ini E ''random_seed=%d'' = None))"
proof (intro conjI allI impI)
  assume "valueplusargs_ini E ''random_seed=%d'' = None"
  then show "main M E = Some \<lparr>out = [Stdout Error_random_seed], exit_code = 44\<rparr>"
    by (simp add: main_def)
next
  fix seed assume "valueplusargs_ini E ''random_seed=%d'' = Some seed"
  then show "main M E =
          map_option (teardown M E)
            (drive_loop M (testplusargs_i E ''heartbeat'') (init_sim M E seed))"
    by (rule main_with_seed)
next
  fix seed r
  assume s: "valueplusargs_ini E ''random_seed=%d'' = Some seed" and r: "main M E = Some r"
  from r obtain t where
    t: "drive_loop M (testplusargs_i E ''heartbeat'') (init_sim M E seed) = Some t"
       "r = teardown M E t"
    by (auto simp add: main_with_seed [OF s])
  show "exit_code r = 0" using t(2) by (simp add: teardown_def)
  show "take 3 (out r) = [Srand48 seed, Stdout (Info_random_seed seed), New_top]"
    using out_start [OF t(1)] t(2) by simp
next
  fix r assume r: "main M E = Some r"
  show "(exit_code r \<noteq> 0) = (valueplusargs_ini E ''random_seed=%d'' = None)"
  proof (cases "valueplusargs_ini E ''random_seed=%d''")
    case None
    with r show ?thesis by (auto simp add: main_def)
  next
    case (Some seed)
    with r show ?thesis by (auto simp add: main_with_seed [OF Some] teardown_def)
  qed
qed

theorem random_seed_is_the_only_checked_failure_witness:
  "main (finish_at 0) env_no_seed = Some \<lparr>out = [Stdout Error_random_seed], exit_code = 44\<rparr>
   \<and> main (finish_at 0) env_seed = Some (teardown (finish_at 0) env_seed (init_sim (finish_at 0) env_seed 7))
   \<and> exit_code (teardown (finish_at 0) env_seed (init_sim (finish_at 0) env_seed 7)) = 0
   \<and> take 3 (out (teardown (finish_at 0) env_seed (init_sim (finish_at 0) env_seed 7))) =
       [Srand48 7, Stdout (Info_random_seed 7), New_top]"
proof -
  have a: "valueplusargs_ini env_no_seed ''random_seed=%d'' = None"
    by (simp add: env_no_seed_def env_seed_def)
  have b: "valueplusargs_ini env_seed ''random_seed=%d'' = Some 7"
    by (simp add: env_seed_def)
  have c: "main (finish_at 0) env_seed =
      Some (teardown (finish_at 0) env_seed (init_sim (finish_at 0) env_seed 7))"
    using random_seed_is_the_only_checked_failure [of env_seed "finish_at 0"] b
    by (simp add: drive_loop_finish_at_0)
  show ?thesis
    using a b c
      random_seed_is_the_only_checked_failure [of env_no_seed "finish_at 0"]
      random_seed_is_the_only_checked_failure [of env_seed "finish_at 0"]
    by simp
qed

text \<open>
  Claim C2, as amended. Reset is asserted from the start for a fixed number of
  evaluations and then released: the first 1540 evaluations see \<open>reset = 1\<close>, every
  later one sees \<open>reset = 0\<close>, and an iteration that starts with reset deasserted leaves
  it so. Every evaluation at a \<open>main_time\<close> of 1540 or more sees \<open>reset = 0\<close>. An
  evaluation at a \<open>main_time\<close> below 1540 sees \<open>reset = 1\<close> as long as the 64-bit
  counter has not wrapped around, that is among the first \<open>2 ^ 64\<close> iterations.
\<close>

theorem reset_schedule:
  "map (\<lambda>(t, r, c). r) (evals (log ((loop_body M hb ^^ n) (init_sim M E seed)))) =
     map (\<lambda>i. if i < 1540 then 1 else 0) [0..<n]
   \<and> (\<forall>(t, r, c) \<in> set (evals (log ((loop_body M hb ^^ n) (init_sim M E seed)))).
        1540 \<le> t \<longrightarrow> r = 0)
   \<and> (n \<le> 2 ^ 64 \<longrightarrow>
        (\<forall>(t, r, c) \<in> set (evals (log ((loop_body M hb ^^ n) (init_sim M E seed)))).
           t < 1540 \<longrightarrow> r = 1))
   \<and> (reset s \<noteq> 1 \<longrightarrow> reset (loop_body M hb s) = reset s)"
proof (intro conjI)
  show "map (\<lambda>(t, r, c). r) (evals (log ((loop_body M hb ^^ n) (init_sim M E seed)))) =
     map (\<lambda>i. if i < 1540 then 1 else 0) [0..<n]"
    by (simp add: evals_run)
next
  show "\<forall>(t, r, c) \<in> set (evals (log ((loop_body M hb ^^ n) (init_sim M E seed)))).
        1540 \<le> t \<longrightarrow> r = 0"
    by (auto simp add: evals_run dest: of_nat_ge_1540)
next
  show "n \<le> 2 ^ 64 \<longrightarrow>
        (\<forall>(t, r, c) \<in> set (evals (log ((loop_body M hb ^^ n) (init_sim M E seed)))).
           t < 1540 \<longrightarrow> r = 1)"
  proof
    assume n: "n \<le> 2 ^ 64"
    have "\<And>i. i < n \<Longrightarrow> (of_nat i :: u64) < 1540 \<Longrightarrow> i < 1540"
    proof -
      fix i assume "i < n" and lt: "(of_nat i :: u64) < 1540"
      with n have "i < 2 ^ 64" by simp
      then show "i < 1540" using lt by (rule of_nat_less_1540)
    qed
    then show "\<forall>(t, r, c) \<in> set (evals (log ((loop_body M hb ^^ n) (init_sim M E seed)))).
           t < 1540 \<longrightarrow> r = 1"
      by (auto simp add: evals_run)
  qed
next
  show "reset s \<noteq> 1 \<longrightarrow> reset (loop_body M hb s) = reset s"
    by (simp add: reset_loop_body)
qed

text \<open>The 1541 first evaluations: 1540 with reset asserted, then one with reset released.\<close>

theorem reset_schedule_witness:
  "map (\<lambda>(t, r, c). r)
     (evals (log ((loop_body never_finish 0 ^^ 1541) (init_sim never_finish env_seed 7)))) =
     replicate 1540 1 @ [0]
   \<and> (1541 :: nat) \<le> 2 ^ 64
   \<and> (1539, 1, 0) \<in> set (evals (log ((loop_body never_finish 0 ^^ 1541)
                                     (init_sim never_finish env_seed 7))))
   \<and> (1540, 0, 1) \<in> set (evals (log ((loop_body never_finish 0 ^^ 1541)
                                     (init_sim never_finish env_seed 7))))
   \<and> reset ((loop_body never_finish 0 ^^ 1541) (init_sim never_finish env_seed 7)) \<noteq> 1
   \<and> reset (loop_body never_finish 0
         ((loop_body never_finish 0 ^^ 1541) (init_sim never_finish env_seed 7))) = 0"
proof -
  have "[0..<1541] = [0..<1540] @ [1540]"
    using upt_Suc_append [of 0 1540] by simp
  moreover have "map (\<lambda>i. if i < 1540 then 1 else 0 :: u8) [0..<1540] = map (\<lambda>i. 1) [0..<1540]"
    by (rule map_cong) simp_all
  ultimately have a: "map (\<lambda>i. if i < 1540 then 1 else 0 :: u8) [0..<1541] = replicate 1540 1 @ [0]"
    by (simp add: map_replicate_const)
  have b: "(1541 :: nat) \<le> 2 ^ 64" by simp
  have c:
    "(1539, 1, 0) \<in> set (evals (log ((loop_body never_finish 0 ^^ 1541)
                                     (init_sim never_finish env_seed 7))))"
    "(1540, 0, 1) \<in> set (evals (log ((loop_body never_finish 0 ^^ 1541)
                                     (init_sim never_finish env_seed 7))))"
    unfolding evals_run set_map
    by (rule image_eqI [where x = 1539], simp, simp)
       (rule image_eqI [where x = 1540], simp, simp)
  have d: "reset ((loop_body never_finish 0 ^^ 1541) (init_sim never_finish env_seed 7)) = 0"
    by (simp add: reset_iter init_sim_simps)
  show ?thesis
    using a b c d
      reset_schedule [where M = never_finish and hb = 0 and n = 1541 and E = env_seed and seed = 7
        and s = "(loop_body never_finish 0 ^^ 1541) (init_sim never_finish env_seed 7)"]
    by simp
qed

text \<open>
  The claim as stated fails once \<open>main_time\<close> has wrapped around: with a model that
  never finishes the loop never exits, and the evaluation of iteration \<open>2 ^ 64\<close> is at
  \<open>main_time = 0\<close>, below 1540, with \<open>reset = 0\<close>.
\<close>

theorem reset_schedule_counterexample:
  "drive_loop never_finish 0 (init_sim never_finish env_seed 7) = None
   \<and> evals (log ((loop_body never_finish 0 ^^ (2 ^ 64 + 1)) (init_sim never_finish env_seed 7)))
       ! (2 ^ 64) = (0, 0, 1)"
proof
  show "drive_loop never_finish 0 (init_sim never_finish env_seed 7) = None"
    by (rule drive_loop_never_finish)
next
  have "(2::nat) ^ 64 < 2 ^ 64 + 1" by simp
  then have "map (\<lambda>i. (of_nat i :: u64, if i < 1540 then 1 else 0 :: u8, if even i then 1 else 0 :: u8))
          [0..<2 ^ 64 + 1] ! (2 ^ 64)
        = (of_nat (2 ^ 64), if (2::nat) ^ 64 < 1540 then 1 else 0, if even ((2::nat) ^ 64) then 1 else 0)"
    by (simp only: nth_map length_upt diff_zero nth_upt add_0)
  also have "\<dots> = (0, 0, 1)"
    by (simp only: wrap_u64) simp
  finally show "evals (log ((loop_body never_finish 0 ^^ (2 ^ 64 + 1))
                  (init_sim never_finish env_seed 7))) ! (2 ^ 64) = (0, 0, 1)"
    by (simp only: evals_run)
qed

text \<open>
  Claim C3. The clock toggles every time unit. Each iteration evaluates the model once,
  with \<open>clock = 1\<close> when \<open>main_time\<close> is even and \<open>clock = 0\<close> when it is odd; over a
  run, the evaluations are at \<open>main_time\<close> 0, 1, 2, ... and their clock values alternate
  1, 0, 1, ..., starting at 1.
\<close>

theorem clock_toggles:
  "evals (log (loop_body M hb s)) =
     evals (log s)
     @ [(main_time s, reset (loop_body M hb s), if main_time s mod 2 = 0 then 1 else 0)]
   \<and> map (\<lambda>(t, r, c). (t, c)) (evals (log ((loop_body M hb ^^ n) (init_sim M E seed)))) =
       map (\<lambda>i. (of_nat i, if even i then 1 else 0)) [0..<n]"
proof
  show "evals (log (loop_body M hb s)) =
     evals (log s)
     @ [(main_time s, reset (loop_body M hb s), if main_time s mod 2 = 0 then 1 else 0)]"
    by (simp add: log_loop_body evals_append reset_loop_body)
next
  have "evals (log ((loop_body M hb ^^ n) (init_sim M E seed))) =
          map (\<lambda>i. (of_nat i, if i < 1540 then 1 else 0, if even i then 1 else 0)) [0..<n]"
    by (simp add: evals_iter init_sim_simps evals_init_sim)
  then show "map (\<lambda>(t, r, c). (t, c)) (evals (log ((loop_body M hb ^^ n) (init_sim M E seed)))) =
       map (\<lambda>i. (of_nat i, if even i then 1 else 0)) [0..<n]"
    by simp
qed

theorem clock_toggles_witness:
  "map (\<lambda>(t, r, c). (t, c))
     (evals (log ((loop_body never_finish 0 ^^ 4) (init_sim never_finish env_seed 7)))) =
   [(0, 1), (1, 0), (2, 1), (3, 0)]"
  using clock_toggles [where M = never_finish and hb = 0 and n = 4 and E = env_seed and seed = 7]
  by (simp add: upt_rec)

text \<open>
  Claim C4, as amended. Each iteration of the drive loop does, in this order: deassert
  reset if it is due, set the clock for the current time step (with the heartbeat line
  if it is due), evaluate the model and flush, advance the time counter, and then dump a
  trace sample if there is a tracer: the dump comes after the increment and carries the
  incremented \<open>main_time\<close>.
\<close>

theorem loop_body_order:
  "log (loop_body M hb s) =
     log s
     @ (if reset s = 1 \<and> 1540 \<le> main_time s
        then [Stdout (Deasserting_reset (main_time s))] else [])
     @ (if hb \<noteq> 0 \<and> main_time s mod 1000 = 0
        then [Stdout (Simulation_heartbeat (main_time s))] else [])
     @ [Eval (main_time s) (reset (loop_body M hb s)) (clock (loop_body M hb s)), Fflush]
     @ (if tfp s then [Dump (main_time (loop_body M hb s))] else [])
   \<and> main_time (loop_body M hb s) = main_time s + 1"
proof
  have "clock (loop_body M hb s) = (if main_time s mod 2 = 0 then 1 else 0)"
    by (rule clock_loop_body)
  then show "log (loop_body M hb s) =
     log s
     @ (if reset s = 1 \<and> 1540 \<le> main_time s
        then [Stdout (Deasserting_reset (main_time s))] else [])
     @ (if hb \<noteq> 0 \<and> main_time s mod 1000 = 0
        then [Stdout (Simulation_heartbeat (main_time s))] else [])
     @ [Eval (main_time s) (reset (loop_body M hb s)) (clock (loop_body M hb s)), Fflush]
     @ (if tfp s then [Dump (main_time (loop_body M hb s))] else [])"
    by (simp add: log_loop_body reset_loop_body main_time_loop_body reset_release_eq)
next
  show "main_time (loop_body M hb s) = main_time s + 1"
    by (rule main_time_loop_body)
qed

text \<open>The first iteration of a traced run with heartbeat: evaluated at time 0, dumped at time 1.\<close>

theorem loop_body_order_witness:
  "log (loop_body (finish_at 1) 1 (init_sim (finish_at 1) env_full 7)) =
     log (init_sim (finish_at 1) env_full 7)
     @ [Stdout (Simulation_heartbeat 0), Eval 0 1 1, Fflush, Dump 1]"
  using loop_body_order [of "finish_at 1" 1 "init_sim (finish_at 1) env_full 7"]
  by (simp add: init_sim_simps tfp_env_full reset_loop_body clock_loop_body main_time_loop_body reset_release_eq)

text \<open>
  The claim as stated, a dump before the increment, fails: on the first iteration of a
  traced run, dumping and then advancing the time would log a sample at time 0, and the
  loop body logs one at time 1.
\<close>

theorem dump_before_increment_counterexample:
  "log (loop_body (finish_at 1) 1 (init_sim (finish_at 1) env_full 7)) \<noteq>
   log (advance_time (dump_trace (eval_model (finish_at 1)
          (drive_clock 1 (deassert_reset (init_sim (finish_at 1) env_full 7))))))"
  by (simp add: loop_body_defs init_sim_simps tfp_env_full reset_release_eq)

text \<open>
  Claim C5. Every run that gets out of the simulation loop exits with code zero,
  whatever the model did: if the seed is given and the model signals completion after
  some number of iterations, \<open>main\<close> returns, and with exit code 0.
\<close>

theorem exit_code_zero_on_completion:
  assumes "valueplusargs_ini E ''random_seed=%d'' = Some seed"
      and "gotFinish M (core ((loop_body M (testplusargs_i E ''heartbeat'') ^^ k) (init_sim M E seed)))"
  shows "\<exists>r. main M E = Some r \<and> exit_code r = 0"
proof -
  from assms(2) obtain t where
    "drive_loop M (testplusargs_i E ''heartbeat'') (init_sim M E seed) = Some t"
    using drive_loop_terminates by blast
  with assms(1) have "main M E = Some (teardown M E t)"
    by (simp add: main_def)
  moreover have "exit_code (teardown M E t) = 0"
    by (simp add: teardown_def)
  ultimately show ?thesis by blast
qed

theorem exit_code_zero_on_completion_witness:
  "valueplusargs_ini env_full ''random_seed=%d'' = Some 7
   \<and> gotFinish (finish_at 2)
       (core ((loop_body (finish_at 2) (testplusargs_i env_full ''heartbeat'') ^^ 2)
          (init_sim (finish_at 2) env_full 7)))
   \<and> (\<exists>r. main (finish_at 2) env_full = Some r \<and> exit_code r = 0)"
proof -
  have a: "valueplusargs_ini env_full ''random_seed=%d'' = Some 7"
    by (simp add: env_full_def)
  have b: "gotFinish (finish_at 2)
       (core ((loop_body (finish_at 2) (testplusargs_i env_full ''heartbeat'') ^^ 2)
          (init_sim (finish_at 2) env_full 7)))"
    by (simp add: core_iter_finish_at gotFinish_finish_at init_sim_simps construct_finish_at)
  show ?thesis
    using a b exit_code_zero_on_completion [OF a b] by blast
qed

text \<open>
  Claim C6, as amended. \<open>main_time\<close> starts at 0, every loop iteration adds exactly
  one to it (modulo \<open>2 ^ 64\<close>, the counter being a \<open>uint64_t\<close>), and no other step of
  the program writes it; after \<open>n\<close> iterations it is \<open>n mod 2 ^ 64\<close>. So it increases
  by one in every iteration that does not start at \<open>2 ^ 64 - 1\<close>.
\<close>

theorem main_time_counts_iterations:
  "main_time (init_sim M E seed) = 0
   \<and> main_time (loop_body M hb s) = main_time s + 1
   \<and> main_time (deassert_reset s) = main_time s
   \<and> main_time (drive_clock hb s) = main_time s
   \<and> main_time (eval_model M s) = main_time s
   \<and> main_time (dump_trace s) = main_time s
   \<and> unat (main_time ((loop_body M hb ^^ n) (init_sim M E seed))) = n mod 2 ^ 64
   \<and> (unat (main_time s) < 2 ^ 64 - 1 \<longrightarrow>
        unat (main_time (loop_body M hb s)) = unat (main_time s) + 1)"
proof (intro conjI)
  show "unat (main_time ((loop_body M hb ^^ n) (init_sim M E seed))) = n mod 2 ^ 64"
    by (simp add: main_time_iter init_sim_simps unat_of_nat)
next
  show "unat (main_time s) < 2 ^ 64 - 1 \<longrightarrow>
        unat (main_time (loop_body M hb s)) = unat (main_time s) + 1"
    by (simp add: main_time_loop_body unat_word_ariths)
qed (simp_all add: init_sim_simps main_time_loop_body loop_body_defs)

theorem main_time_counts_iterations_witness:
  "unat (main_time (init_sim never_finish env_seed 7)) < 2 ^ 64 - 1
   \<and> unat (main_time (loop_body never_finish 0 (init_sim never_finish env_seed 7))) = 1
   \<and> unat (main_time ((loop_body never_finish 0 ^^ 5) (init_sim never_finish env_seed 7))) = 5"
  using main_time_counts_iterations
    [where M = never_finish and E = env_seed and seed = 7 and hb = 0
       and s = "init_sim never_finish env_seed 7" and n = 5]
  by simp

text \<open>
  The claim as stated, a counter that only ever increases, fails at the wrap-around:
  with a model that never finishes the loop never exits, and \<open>main_time\<close> after
  \<open>2 ^ 64\<close> iterations is smaller than after \<open>2 ^ 64 - 1\<close>.
\<close>

theorem main_time_counts_iterations_counterexample:
  "drive_loop never_finish 0 (init_sim never_finish env_seed 7) = None
   \<and> main_time ((loop_body never_finish 0 ^^ (2 ^ 64)) (init_sim never_finish env_seed 7))
     < main_time ((loop_body never_finish 0 ^^ (2 ^ 64 - 1)) (init_sim never_finish env_seed 7))"
proof
  show "drive_loop never_finish 0 (init_sim never_finish env_seed 7) = None"
    by (rule drive_loop_never_finish)
next
  have "(of_nat (2 ^ 64 - 1) :: u64) = - 1" by (simp add: of_nat_diff)
  moreover have "(0 :: u64) < - 1" by (simp add: word_gt_0)
  ultimately show
    "main_time ((loop_body never_finish 0 ^^ (2 ^ 64)) (init_sim never_finish env_seed 7))
     < main_time ((loop_body never_finish 0 ^^ (2 ^ 64 - 1)) (init_sim never_finish env_seed 7))"
    by (simp only: main_time_iter init_sim_simps wrap_u64 add_0)
qed

text \<open>
  Claim C7. With the heartbeat flag given on the command line (\<open>VL_TESTPLUSARGS_I\<close> of
  \<open>heartbeat\<close> non-zero), the heartbeat line is logged exactly at the iterations whose
  \<open>main_time\<close> is a multiple of 1000: an iteration logs it exactly then, and the heartbeat
  lines in the output of a run of \<open>main\<close> are the times of its evaluations that are
  multiples of 1000, in order, those times being 0, 1, 2, ... Without the flag no run
  prints one.
\<close>

theorem heartbeat_every_1000:
  "heartbeats (log (loop_body M hb s)) =
     heartbeats (log s) @ (if hb \<noteq> 0 \<and> main_time s mod 1000 = 0 then [main_time s] else [])
   \<and> heartbeats (log ((loop_body M hb ^^ n) (init_sim M E seed))) =
       (if hb \<noteq> 0 then filter (\<lambda>t. t mod 1000 = 0) (map of_nat [0..<n]) else [])
   \<and> (\<forall>r. main M E = Some r \<longrightarrow>
         map (\<lambda>(t, r, c). t) (evals (out r)) = map of_nat [0..<length (evals (out r))]
         \<and> heartbeats (out r) =
             (if testplusargs_i E ''heartbeat'' \<noteq> 0
              then filter (\<lambda>t. t mod 1000 = 0) (map (\<lambda>(t, r, c). t) (evals (out r)))
              else []))
   \<and> (\<forall>r. testplusargs_i E ''heartbeat'' = 0 \<and> main M E = Some r \<longrightarrow> heartbeats (out r) = [])"
proof -
  have iteration: "heartbeats (log (loop_body M hb s)) =
     heartbeats (log s) @ (if hb \<noteq> 0 \<and> main_time s mod 1000 = 0 then [main_time s] else [])"
    by (simp add: log_loop_body heartbeats_append)
  have iterates: "heartbeats (log ((loop_body M hb ^^ n) (init_sim M E seed))) =
       (if hb \<noteq> 0 then filter (\<lambda>t. t mod 1000 = 0) (map of_nat [0..<n]) else [])"
    by (simp add: heartbeats_iter heartbeats_init_sim init_sim_simps)
  have run: "map (\<lambda>(t, r, c). t) (evals (out r)) = map of_nat [0..<length (evals (out r))]
         \<and> heartbeats (out r) =
             (if testplusargs_i E ''heartbeat'' \<noteq> 0
              then filter (\<lambda>t. t mod 1000 = 0) (map (\<lambda>(t, r, c). t) (evals (out r)))
              else [])"
    if r: "main M E = Some r" for r
  proof (cases "valueplusargs_ini E ''random_seed=%d''")
    case None
    with r have "out r = [Stdout Error_random_seed]" by (auto simp add: main_def)
    then show ?thesis by simp
  next
    case (Some seed')
    with r obtain t where
      t: "drive_loop M (testplusargs_i E ''heartbeat'') (init_sim M E seed') = Some t"
         "r = teardown M E t"
      by (auto simp add: main_with_seed [OF Some])
    from t(1) obtain k where
      k: "t = (loop_body M (testplusargs_i E ''heartbeat'') ^^ k) (init_sim M E seed')"
      using drive_loop_SomeD by blast
    have times: "map (\<lambda>(t, r, c). t) (evals (out r)) = map of_nat [0..<k]"
      using t(2) k by (simp only: evals_teardown times_run)
    then have "length (evals (out r)) = k"
      using length_map [of "\<lambda>(t, r, c). t" "evals (out r)"] by simp
    moreover have "heartbeats (out r) =
        (if testplusargs_i E ''heartbeat'' \<noteq> 0
         then filter (\<lambda>t. t mod 1000 = 0) (map of_nat [0..<k]) else [])"
      using t(2) k
      by (simp only: heartbeats_teardown heartbeats_iter heartbeats_init_sim init_sim_simps
            append_Nil add_0)
    ultimately show ?thesis using times by simp
  qed
  have absent: "heartbeats (out r) = []"
    if "testplusargs_i E ''heartbeat'' = 0 \<and> main M E = Some r" for r
    using run [of r] that by simp
  from iteration iterates run absent show ?thesis by blast
qed

text \<open>
  A model that finishes in its 1001st evaluation: with the flag the heartbeat lines are
  those of times 0 and 1000, without it there is none.
\<close>

theorem heartbeat_every_1000_witness:
  "testplusargs_i env_full ''heartbeat'' \<noteq> 0
   \<and> main (finish_at 1001) env_full =
       Some (teardown (finish_at 1001) env_full
         ((loop_body (finish_at 1001) (testplusargs_i env_full ''heartbeat'') ^^ 1001)
            (init_sim (finish_at 1001) env_full 7)))
   \<and> length (evals (out (teardown (finish_at 1001) env_full
         ((loop_body (finish_at 1001) (testplusargs_i env_full ''heartbeat'') ^^ 1001)
            (init_sim (finish_at 1001) env_full 7))))) = 1001
   \<and> heartbeats (out (teardown (finish_at 1001) env_full
         ((loop_body (finish_at 1001) (testplusargs_i env_full ''heartbeat'') ^^ 1001)
            (init_sim (finish_at 1001) env_full 7)))) = [0, 1000]
   \<and> testplusargs_i env_seed ''heartbeat'' = 0
   \<and> main (finish_at 1001) env_seed =
       Some (teardown (finish_at 1001) env_seed
         ((loop_body (finish_at 1001) (testplusargs_i env_seed ''heartbeat'') ^^ 1001)
            (init_sim (finish_at 1001) env_seed 7)))
   \<and> length (evals (out (teardown (finish_at 1001) env_seed
         ((loop_body (finish_at 1001) (testplusargs_i env_seed ''heartbeat'') ^^ 1001)
            (init_sim (finish_at 1001) env_seed 7))))) = 1001
   \<and> heartbeats (out (teardown (finish_at 1001) env_seed
         ((loop_body (finish_at 1001) (testplusargs_i env_seed ''heartbeat'') ^^ 1001)
            (init_sim (finish_at 1001) env_seed 7)))) = []"
proof -
  have flag: "testplusargs_i env_full ''heartbeat'' \<noteq> 0" "testplusargs_i env_seed ''heartbeat'' = 0"
    by (simp_all add: env_full_def env_seed_def)
  have full: "main (finish_at 1001) env_full =
       Some (teardown (finish_at 1001) env_full
         ((loop_body (finish_at 1001) (testplusargs_i env_full ''heartbeat'') ^^ 1001)
            (init_sim (finish_at 1001) env_full 7)))"
    by (rule main_finish_at) (simp add: env_full_def)
  have seed: "main (finish_at 1001) env_seed =
       Some (teardown (finish_at 1001) env_seed
         ((loop_body (finish_at 1001) (testplusargs_i env_seed ''heartbeat'') ^^ 1001)
            (init_sim (finish_at 1001) env_seed 7)))"
    by (rule main_finish_at) (simp add: env_seed_def)
  have len: "length (evals (out (teardown M E ((loop_body M hb ^^ 1001) (init_sim M E 7))))) = 1001"
    for M :: "nat model" and E hb
    by (simp only: evals_teardown evals_run length_map length_upt diff_zero)
  have times: "map (\<lambda>(t, r, c). t)
      (evals (out (teardown M E ((loop_body M hb ^^ 1001) (init_sim M E 7))))) =
      map of_nat [0..<1001]"
    for M :: "nat model" and E hb
    by (simp only: evals_teardown times_run)
  show ?thesis
    using flag full seed
      heartbeat_every_1000 [where M = "finish_at 1001" and E = env_full]
      heartbeat_every_1000 [where M = "finish_at 1001" and E = env_seed]
    by (simp only: len times heartbeat_times_1001) simp
qed

text \<open>
  Claim C8. The drive loop runs until, and only until, the model signals completion.
  It returns exactly when some iterate of the loop body has \<open>gotFinish\<close> set, and then
  it returns the first such state, having executed one iteration from each earlier
  state, all of which have \<open>gotFinish\<close> clear; it never returns exactly when
  \<open>gotFinish\<close> is clear after every number of iterations.
\<close>

theorem drive_loop_runs_until_finish:
  "((drive_loop M hb s = Some t) =
      (\<exists>k. t = (loop_body M hb ^^ k) s \<and> gotFinish M (core t) \<and>
           (\<forall>j<k. \<not> gotFinish M (core ((loop_body M hb ^^ j) s)))))
   \<and> ((drive_loop M hb s = None) =
      (\<forall>k. \<not> gotFinish M (core ((loop_body M hb ^^ k) s))))"
proof (intro conjI iffI)
  assume "drive_loop M hb s = Some t"
  then show "\<exists>k. t = (loop_body M hb ^^ k) s \<and> gotFinish M (core t) \<and>
           (\<forall>j<k. \<not> gotFinish M (core ((loop_body M hb ^^ j) s)))"
    by (rule drive_loop_SomeD)
next
  assume "\<exists>k. t = (loop_body M hb ^^ k) s \<and> gotFinish M (core t) \<and>
           (\<forall>j<k. \<not> gotFinish M (core ((loop_body M hb ^^ j) s)))"
  then obtain k where "t = (loop_body M hb ^^ k) s"
    "gotFinish M (core ((loop_body M hb ^^ k) s))"
    "\<And>j. j < k \<Longrightarrow> \<not> gotFinish M (core ((loop_body M hb ^^ j) s))"
    by blast
  then show "drive_loop M hb s = Some t"
    using drive_loop_finishes [where k = k and M = M and hb = hb and s = s] by simp
next
  assume "drive_loop M hb s = None"
  then show "\<forall>k. \<not> gotFinish M (core ((loop_body M hb ^^ k) s))"
    by (simp add: drive_loop_None_iff)
next
  assume "\<forall>k. \<not> gotFinish M (core ((loop_body M hb ^^ k) s))"
  then show "drive_loop M hb s = None"
    by (simp add: drive_loop_None_iff)
qed

text \<open>
  A model that finishes in its second evaluation is evaluated twice; one that never
  finishes keeps the loop running.
\<close>

theorem drive_loop_runs_until_finish_witness:
  "drive_loop (finish_at 2) 0 (init_sim (finish_at 2) env_seed 7) =
     Some ((loop_body (finish_at 2) 0 ^^ 2) (init_sim (finish_at 2) env_seed 7))
   \<and> drive_loop never_finish 0 (init_sim never_finish env_seed 7) = None"
proof
  have "\<forall>j<2. \<not> gotFinish (finish_at 2)
          (core ((loop_body (finish_at 2) 0 ^^ j) (init_sim (finish_at 2) env_seed 7)))"
    by (simp add: core_iter_finish_at gotFinish_finish_at init_sim_simps construct_finish_at)
  moreover have "gotFinish (finish_at 2)
          (core ((loop_body (finish_at 2) 0 ^^ 2) (init_sim (finish_at 2) env_seed 7)))"
    by (simp add: core_iter_finish_at gotFinish_finish_at init_sim_simps construct_finish_at)
  ultimately show "drive_loop (finish_at 2) 0 (init_sim (finish_at 2) env_seed 7) =
     Some ((loop_body (finish_at 2) 0 ^^ 2) (init_sim (finish_at 2) env_seed 7))"
    using drive_loop_runs_until_finish
      [of "finish_at 2" 0 "init_sim (finish_at 2) env_seed 7"
          "(loop_body (finish_at 2) 0 ^^ 2) (init_sim (finish_at 2) env_seed 7)"]
    by blast
next
  show "drive_loop never_finish 0 (init_sim never_finish env_seed 7) = None"
    using drive_loop_runs_until_finish
      [of never_finish 0 "init_sim never_finish env_seed 7"]
    by (simp add: gotFinish_never_finish)
qed

text \<open>
  Claim C9. After the loop the teardown is: \<open>final\<close>, trace close, coverage data,
  destruction of the model, and a CPU-time line on stderr computed from the \<open>utime\<close>
  and \<open>stime\<close> fields of the process's stat file, which the comments of lines 135-136
  name as fields 14 and 15. The code takes the 14th and 15th white-space separated
  tokens instead. For a process whose executable is called \<open>my sim\<close>, with
  \<open>utime = 12\<close> and \<open>stime = 3\<close>, the line is computed from \<open>7\<close> (\<open>cmajflt\<close>) and
  \<open>12\<close> (\<open>utime\<close>); when the stat file gives nothing, it is computed from two
  variables that were never assigned.
\<close>

theorem cpu_time_reads_other_fields:
  "stat_fields_my_sim ! 13 = ''12'' \<and> stat_fields_my_sim ! 14 = ''3''
   \<and> main (finish_at 0) env_my_sim =
       Some \<lparr>out = [Srand48 7, Stdout (Info_random_seed 7), New_top, Final, Fflush, Delete_top,
                    Stderr_cpu_time (Some ''7'') (Some ''12'')],
             exit_code = 0\<rparr>
   \<and> main (finish_at 0) env_seed =
       Some \<lparr>out = [Srand48 7, Stdout (Info_random_seed 7), New_top, Final, Fflush, Delete_top,
                    Stderr_cpu_time None None],
             exit_code = 0\<rparr>"
proof -
  have fields: "stat_fields_my_sim ! 13 = ''12''" "stat_fields_my_sim ! 14 = ''3''"
    by (simp_all add: stat_fields_my_sim_def)
  have toks: "stream_tokens [] (proc_stat env_my_sim) =
      [''4242'', ''(my'', ''sim)'', ''R'', ''1'', ''4242'', ''4242'', ''0'', ''-1'', ''4194304'',
       ''100'', ''0'', ''5'', ''7'', ''12'', ''3'', ''0'', ''0'']"
    by (simp add: env_my_sim_def env_seed_def stat_fields_my_sim_def isspace_def)
  have none: "stream_tokens [] (proc_stat env_seed) = []"
    by (simp add: env_seed_def)
  have seeds: "valueplusargs_ini env_my_sim ''random_seed=%d'' = Some 7"
    "valueplusargs_ini env_seed ''random_seed=%d'' = Some 7"
    by (simp_all add: env_my_sim_def env_seed_def)
  have quiet: "trace_setup env_my_sim = None" "trace_setup env_seed = None"
    "\<not> vm_coverage env_my_sim" "\<not> vm_coverage env_seed"
    by (simp_all add: trace_setup_def env_my_sim_def env_seed_def)
  have a: "main (finish_at 0) env_my_sim =
       Some \<lparr>out = [Srand48 7, Stdout (Info_random_seed 7), New_top, Final, Fflush, Delete_top,
                    Stderr_cpu_time (Some ''7'') (Some ''12'')],
             exit_code = 0\<rparr>"
    by (simp add: main_finish_at_0 [OF seeds(1)] teardown_def init_sim_def trace_setup_events_def
          quiet toks stat_token_def)
  have b: "main (finish_at 0) env_seed =
       Some \<lparr>out = [Srand48 7, Stdout (Info_random_seed 7), New_top, Final, Fflush, Delete_top,
                    Stderr_cpu_time None None],
             exit_code = 0\<rparr>"
    by (simp add: main_finish_at_0 [OF seeds(2)] teardown_def init_sim_def trace_setup_events_def
          quiet none stat_token_def)
  from fields a b show ?thesis by simp
qed

text \<open>
  Claim C10. \<open>plusarg_value\<close> copies the value of the plusarg into its static array of
  1024 bytes with an unchecked \<open>strcpy\<close>. For a value as the command line gives it (a C
  string, so without a terminator inside), the copy stays inside the array exactly when
  the value has at most 1023 characters, and then the array holds the value; a longer
  value is written past the end. Every call returns the address of the same array, so
  after a second call the string behind the pointer of the first call is the second
  value.
\<close>

theorem plusarg_value_static_buffer:
  assumes "length buffer = buffer_size"
      and "valueplusargs_inn E (plusarg @ ''%s'') = Some v"
      and "NUL \<notin> set v"
  shows "((\<exists>b. plusarg_value E buffer plusarg = Inr (Static_buffer, b)
              \<and> length b = buffer_size \<and> c_string_at b = v)
          = (length v \<le> 1023))
       \<and> ((plusarg_value E buffer plusarg = Inl Write_past_end) = (1023 < length v))
       \<and> (\<forall>b plusarg2 v2 q b2.
             plusarg_value E buffer plusarg = Inr (Static_buffer, b)
             \<and> valueplusargs_inn E (plusarg2 @ ''%s'') = Some v2 \<and> NUL \<notin> set v2
             \<and> plusarg_value E b plusarg2 = Inr (q, b2)
             \<longrightarrow> q = Static_buffer \<and> length b2 = buffer_size \<and> c_string_at b2 = v2)"
proof (intro conjI allI impI)
  show "(\<exists>b. plusarg_value E buffer plusarg = Inr (Static_buffer, b)
              \<and> length b = buffer_size \<and> c_string_at b = v)
          = (length v \<le> 1023)"
    using assms
    by (auto simp add: plusarg_value_found buffer_size_def c_string_at_terminated)
next
  show "(plusarg_value E buffer plusarg = Inl Write_past_end) = (1023 < length v)"
    using assms by (auto simp add: plusarg_value_found buffer_size_def)
next
  fix b plusarg2 v2 q b2
  assume a: "plusarg_value E buffer plusarg = Inr (Static_buffer, b)
             \<and> valueplusargs_inn E (plusarg2 @ ''%s'') = Some v2 \<and> NUL \<notin> set v2
             \<and> plusarg_value E b plusarg2 = Inr (q, b2)"
  from a have first: "plusarg_value E buffer plusarg = Inr (Static_buffer, b)"
    and v2: "valueplusargs_inn E (plusarg2 @ ''%s'') = Some v2" "NUL \<notin> set v2"
    and second: "plusarg_value E b plusarg2 = Inr (q, b2)"
    by simp_all
  have lb: "length b = buffer_size"
    using first assms by (auto simp add: plusarg_value_found buffer_size_def split: if_splits)
  have "plusarg_value E b plusarg2 =
           (if length v2 + 1 \<le> length b
            then Inr (Static_buffer, v2 @ NUL # drop (length v2 + 1) b)
            else Inl Write_past_end)"
    by (simp add: plusarg_value_found [OF v2])
  with second have
    "Inr (q, b2) =
       (if length v2 + 1 \<le> length b
        then Inr (Static_buffer, v2 @ NUL # drop (length v2 + 1) b)
        else Inl Write_past_end)"
    by simp
  with v2(2) lb have "q = Static_buffer \<and> length b2 = buffer_size \<and> c_string_at b2 = v2"
    by (auto simp add: c_string_at_terminated buffer_size_def split: if_splits)
  then show "q = Static_buffer" and "length b2 = buffer_size" and "c_string_at b2 = v2"
    by simp_all
qed

text \<open>The value \<open>dump.vcd\<close> fits; a value of 1024 characters does not.\<close>

theorem plusarg_value_static_buffer_witness:
  "length (replicate buffer_size NUL) = buffer_size
   \<and> valueplusargs_inn env_full (''vcdfile='' @ ''%s'') = Some ''dump.vcd''
   \<and> NUL \<notin> set ''dump.vcd''
   \<and> (\<exists>b. plusarg_value env_full (replicate buffer_size NUL) ''vcdfile='' = Inr (Static_buffer, b)
          \<and> length b = buffer_size \<and> c_string_at b = ''dump.vcd'')
   \<and> valueplusargs_inn env_long (''x='' @ ''%s'') = Some (replicate 1024 CHR ''a'')
   \<and> NUL \<notin> set (replicate 1024 CHR ''a'')
   \<and> plusarg_value env_long (replicate buffer_size NUL) ''x='' = Inl Write_past_end"
proof -
  have a: "length (replicate buffer_size NUL) = buffer_size" by simp
  have b: "valueplusargs_inn env_full (''vcdfile='' @ ''%s'') = Some ''dump.vcd''"
    by (simp add: env_full_def)
  have c: "NUL \<notin> set ''dump.vcd''" by (simp add: NUL_def)
  have d: "valueplusargs_inn env_long (''x='' @ ''%s'') = Some (replicate 1024 CHR ''a'')"
    by (simp add: env_long_def)
  have e: "NUL \<notin> set (replicate 1024 CHR ''a'')" by (simp add: NUL_def)
  show ?thesis
    using a b c d e
      plusarg_value_static_buffer [OF a b c]
      plusarg_value_static_buffer [OF a d e]
    by simp
qed

end
